theory Spec2Isabelle
  imports Main
begin

section \<open>The S3 deployment custom resource\<close>

text \<open>
  A shallow embedding of \<^verbatim>\<open>exports.handler\<close> of
  \<^verbatim>\<open>src/s3-deployment-custom-resource/index.js\<close>.

  The handler is callback driven: it talks to S3, CloudFront, the local disk and the
  CloudFormation response URL. The model makes every collaborator an explicit field of an
  environment record (what each call answers during one invocation) and lets the handler
  return the list of the actions that the code performs, in the order in which it
  performs them.

  Conventions of the model:
  \<^item> the trace is cut into the ticks of the event loop by the marker \<open>Tick\<close>: what
    stands between two markers is done in one go, by the handler body or by one
    callback;
  \<^item> the S3 or CloudFront client may refuse a call while it is being made (the
    parameters do not validate): then the callback of the call runs inside the call,
    with the error, before the statement after the call; otherwise the callback runs in
    a later tick, with the answer of the service;
  \<^item> the answers of the service to requests that are in flight together (the deletions
    of the Delete path, the uploads of the Create/Update path) arrive in the order in
    which the requests were issued;
  \<^item> an exception that no \<^verbatim>\<open>try\<close> block of the handler catches ends the process and
    the trace, with \<open>Uncaught\<close>;
  \<^item> the completion callback of the invocation is not an action of the trace: it runs
    when the HTTP PUT of a response has been answered or has failed, in a tick of its
    own, and is read off the trace by \<open>completions\<close> below;
  \<^item> the event is a CloudFormation custom resource request: \<^verbatim>\<open>ResourceProperties\<close> is
    present, and property values, identifiers and the response URL are strings.
\<close>

subsection \<open>Data model\<close>

text \<open>\<^verbatim>\<open>ResourceProperties.Options\<close>: every property may be absent (\<open>None\<close>).\<close>

record options =
  SourceBucket :: "string option"
  SourceArtifact :: "string option"
  DestinationBucket :: "string option"

text \<open>The triggering event; \<open>Options\<close> stands for \<^verbatim>\<open>ResourceProperties.Options\<close>.\<close>

record event =
  LogicalResourceId :: string
  RequestType :: string
  Options :: "options option"
  PhysicalResourceId :: "string option"
  ResponseURL :: string
  StackId :: string
  RequestId :: string

text \<open>
  The JSON body of the callback response. \<open>Data\<close> is the \<^verbatim>\<open>message\<close> of
  \<^verbatim>\<open>responseData\<close>.
\<close>

record response_body =
  Status :: string
  Reason :: string
  resp_PhysicalResourceId :: string
  resp_StackId :: string
  resp_RequestId :: string
  resp_LogicalResourceId :: string
  Data :: string

text \<open>An entry of a zip archive, as \<^verbatim>\<open>adm-zip\<close> presents it.\<close>

record zipEntry =
  entryName :: string
  isDirectory :: bool
  getData :: string

text \<open>\<^verbatim>\<open>s3FileProperties\<close>, the parameters of one upload.\<close>

record putObject_params =
  Bucket :: string
  Key :: string
  ContentLength :: nat
  Body :: string
  ContentType :: "string option"

text \<open>The parameters of the CloudFront invalidation.\<close>

record invalidation_params =
  DistributionId :: string
  CallerReference :: string
  Quantity :: nat
  Items :: "string list"

text \<open>
  The actions of one invocation: the calls of the S3 and CloudFront clients and the HTTP
  PUT of a response. \<open>Tick\<close> is the marker between two ticks of the event loop;
  \<open>Uncaught\<close> is an exception that nothing catches.
\<close>

datatype action =
    S3_getObject string string
  | S3_listObjects "string option"
  | S3_deleteObject "string option" string
  | S3_putObject putObject_params
  | CloudFront_createInvalidation invalidation_params
  | Https_PUT string response_body
  | Tick
  | Uncaught

text \<open>
  The environment of one invocation: process environment, Lambda context, the scratch
  files left under \<^verbatim>\<open>/tmp\<close> by earlier invocations, and the answer of every
  collaborator. An \<open>Inl\<close> or \<open>Some\<close> answer of a collaborator is its error, rendered as text.
  \<open>client_rejects\<close> is the error with which the S3 or CloudFront client refuses a call
  inside the call, if it does; the answers of the services are consulted for the calls
  it lets through. \<open>AdmZip\<close> (the entries of an archive given its bytes, \<open>None\<close> when
  the constructor throws) and \<open>mime_getType\<close> (\<open>None\<close> for JavaScript's \<^verbatim>\<open>null\<close>) are
  the two other libraries the handler relies on; \<open>s3_putObject\<close> answers with the
  \<^verbatim>\<open>Key\<close> field of the response data, if it has one.
\<close>

record env =
  CLOUD_FRONT_DISTRIBUTION_ID :: "string option"
  logStreamName :: string
  Date_now :: string
  tmp_files :: "string \<Rightarrow> string option"
  client_rejects :: "action \<Rightarrow> string option"
  s3_getObject :: "string \<Rightarrow> string \<Rightarrow> string + string"
  s3_listObjects :: "string option \<Rightarrow> string + string list"
  s3_deleteObject :: "string option \<Rightarrow> string \<Rightarrow> string option"
  s3_putObject :: "putObject_params \<Rightarrow> string + string option"
  cloudfront_createInvalidation :: "invalidation_params \<Rightarrow> string option"
  https_request :: "string \<Rightarrow> response_body \<Rightarrow> string option"
  fs_writeFileSync :: "string \<Rightarrow> string \<Rightarrow> string option"
  AdmZip :: "string \<Rightarrow> zipEntry list option"
  extractEntryTo :: "zipEntry \<Rightarrow> string \<Rightarrow> string option"
  mime_getType :: "string \<Rightarrow> string option"

subsection \<open>Constants and JavaScript helpers\<close>

definition SUCCESS :: string where
  "SUCCESS = ''SUCCESS''"

definition FAILED :: string where
  "FAILED = ''FAILED''"

definition UPDATE :: string where
  "UPDATE = ''Update''"

definition CREATE :: string where
  "CREATE = ''Create''"

definition DELETE :: string where
  "DELETE = ''Delete''"

text \<open>JavaScript truthiness of a value that is a string or \<^verbatim>\<open>undefined\<close>.\<close>

definition truthy :: "string option \<Rightarrow> bool" where
  "truthy v = (case v of None \<Rightarrow> False | Some s \<Rightarrow> s \<noteq> [])"

text \<open>A string or \<^verbatim>\<open>undefined\<close> inside a template literal.\<close>

definition interpolate :: "string option \<Rightarrow> string" where
  "interpolate v = (case v of None \<Rightarrow> ''undefined'' | Some s \<Rightarrow> s)"

text \<open>
  \<^verbatim>\<open>s.split('::')\<close>: the text is cut at every occurrence of the separator, scanning
  from the left; \<open>acc\<close> holds the current piece, reversed.
\<close>

fun split_colons :: "string \<Rightarrow> string \<Rightarrow> string list" where
  "split_colons acc [] = [rev acc]"
| "split_colons acc [c] = [rev (c # acc)]"
| "split_colons acc (c # d # cs) =
     (if c = CHR '':'' \<and> d = CHR '':'' then rev acc # split_colons [] cs
      else split_colons (c # acc) (d # cs))"

text \<open>\<^verbatim>\<open>const [, Bucket] = resourceId.split('::')\<close>: the second piece, if there is one.\<close>

definition second_piece :: "string \<Rightarrow> string option" where
  "second_piece resourceId =
     (case split_colons [] resourceId of
        _ # b # _ \<Rightarrow> Some b
      | _ \<Rightarrow> None)"

text \<open>
  An array of results inside a template literal: the elements joined by commas, an
  \<^verbatim>\<open>undefined\<close> element rendered as the empty string.
\<close>

fun join_results :: "string option list \<Rightarrow> string" where
  "join_results [] = []"
| "join_results [r] = (case r of None \<Rightarrow> [] | Some s \<Rightarrow> s)"
| "join_results (r # rs) = (case r of None \<Rightarrow> [] | Some s \<Rightarrow> s) @ '','' @ join_results rs"

text \<open>
  \<^verbatim>\<open>results[key] = v\<close> on a JavaScript array: an index beyond the end extends the
  array, the elements in between being empty.
\<close>

definition set_result :: "string option list \<Rightarrow> nat \<Rightarrow> string option \<Rightarrow> string option list" where
  "set_result results key v =
     (if key < length results then results[key := v]
      else results @ replicate (key - length results) None @ [v])"

subsection \<open>ResponseSignaler\<close>

text \<open>
  \<^verbatim>\<open>sendCloudFormationResponse\<close> builds the response body and issues one HTTP PUT to
  the response URL. The promise it returns settles in a later tick, see \<open>completion\<close>.
\<close>

definition sendCloudFormationResponse ::
  "env \<Rightarrow> event \<Rightarrow> string \<Rightarrow> string \<Rightarrow> string option \<Rightarrow> action list" where
  "sendCloudFormationResponse e ev responseStatus responseData physicalResourceId =
     (let responseBody =
        \<lparr>Status = responseStatus,
         Reason = ''See the details in CloudWatch Log Stream: '' @ logStreamName e,
         resp_PhysicalResourceId =
           (case physicalResourceId of
              None \<Rightarrow> logStreamName e
            | Some p \<Rightarrow> if p \<noteq> [] then p else logStreamName e),
         resp_StackId = StackId ev,
         resp_RequestId = RequestId ev,
         resp_LogicalResourceId = LogicalResourceId ev,
         Data = responseData\<rparr>
      in [Https_PUT (ResponseURL ev) responseBody])"

text \<open>
  The arguments that the promise chain of \<^verbatim>\<open>sendCloudFormationResponse\<close> gives to the
  completion callback of the invocation once the PUT of the response \<open>b\<close> has been
  answered or has failed:
  \<^verbatim>\<open>.then(() => callback(status === FAILED ? status : null, responseData))\<close> and
  \<^verbatim>\<open>.catch(callback)\<close> with the rejection text.
\<close>

definition completion :: "env \<Rightarrow> event \<Rightarrow> response_body \<Rightarrow> string option \<times> string option" where
  "completion e ev b =
     (case https_request e (ResponseURL ev) b of
        None \<Rightarrow> (if Status b = FAILED then Some (Status b) else None, Some (Data b))
      | Some err \<Rightarrow> (Some (''http request error: '' @ err), None))"

subsection \<open>The Delete path\<close>

text \<open>The callback of \<^verbatim>\<open>s3.deleteObject\<close> for the key \<open>k\<close>.\<close>

definition deleteObject_callback :: "env \<Rightarrow> event \<Rightarrow> string \<Rightarrow> string option \<Rightarrow> action list" where
  "deleteObject_callback e ev k err =
     (case err of
        None \<Rightarrow> []
      | Some x \<Rightarrow>
          sendCloudFormationResponse e ev FAILED (''Could not delete object: '' @ k) None)"

text \<open>
  The callback of \<^verbatim>\<open>s3.listObjects\<close>: the loop issues every deletion (a deletion that
  the client refuses is answered inside the loop); the other deletions are answered in
  later ticks.
\<close>

definition listObjects_callback ::
  "env \<Rightarrow> event \<Rightarrow> string option \<Rightarrow> string + string list \<Rightarrow> action list" where
  "listObjects_callback e ev bucket answer =
     (case answer of
        Inl err \<Rightarrow>
          sendCloudFormationResponse e ev FAILED (''Could not list bucket objects: '' @ err) None
      | Inr Contents \<Rightarrow>
          concat (map (\<lambda>k. S3_deleteObject bucket k
                            # (case client_rejects e (S3_deleteObject bucket k) of
                                 None \<Rightarrow> []
                               | Some err \<Rightarrow> deleteObject_callback e ev k (Some err)))
                    Contents)
          @ concat (map (\<lambda>k. case client_rejects e (S3_deleteObject bucket k) of
                                Some err \<Rightarrow> []
                              | None \<Rightarrow>
                                  Tick # deleteObject_callback e ev k (s3_deleteObject e bucket k))
                      Contents))"

definition cleanBucket :: "env \<Rightarrow> event \<Rightarrow> string option \<Rightarrow> action list" where
  "cleanBucket e ev resourceId =
     (if \<not> truthy resourceId then
        sendCloudFormationResponse e ev FAILED
          (''Invalid physical resource id: '' @ interpolate resourceId) None
      else
        let bucket = second_piece (interpolate resourceId)
        in S3_listObjects bucket
           # (case client_rejects e (S3_listObjects bucket) of
                Some err \<Rightarrow>
                  listObjects_callback e ev bucket (Inl err)
                  @ sendCloudFormationResponse e ev SUCCESS ''OK'' resourceId
              | None \<Rightarrow>
                  sendCloudFormationResponse e ev SUCCESS ''OK'' resourceId
                  @ Tick # listObjects_callback e ev bucket (s3_listObjects e bucket)))"

subsection \<open>The Create/Update path\<close>

definition tmpSourceArtifact :: string where
  "tmpSourceArtifact = ''/tmp/artifact.zip''"

definition tmpPackageZip :: string where
  "tmpPackageZip = ''/tmp/package.zip''"

definition deploymentDir :: string where
  "deploymentDir = ''/tmp/dist''"

text \<open>\<^verbatim>\<open>new AdmZip(path).getEntries()\<close>; \<open>None\<close> when the constructor throws.\<close>

definition AdmZip_open :: "env \<Rightarrow> (string \<Rightarrow> string option) \<Rightarrow> string \<Rightarrow> zipEntry list option" where
  "AdmZip_open e files path =
     (case files path of
        None \<Rightarrow> None
      | Some bytes \<Rightarrow> AdmZip e bytes)"

text \<open>
  \<^verbatim>\<open>zipEntries.forEach\<close>: the state is \<^verbatim>\<open>packageFound\<close>, the scratch files and the
  responses sent so far. The \<^verbatim>\<open>return\<close> in the \<^verbatim>\<open>catch\<close> block leaves the
  \<^verbatim>\<open>forEach\<close> callback only, so the loop and the code after it go on.
\<close>

fun find_package ::
  "env \<Rightarrow> event \<Rightarrow> zipEntry list \<Rightarrow> bool \<times> (string \<Rightarrow> string option) \<times> action list
     \<Rightarrow> bool \<times> (string \<Rightarrow> string option) \<times> action list" where
  "find_package e ev [] st = st"
| "find_package e ev (z # zs) (packageFound, files, sent) =
     (if entryName z = ''package.zip'' then
        (case extractEntryTo e z ''/tmp'' of
           Some ex \<Rightarrow>
             find_package e ev zs
               (True, files,
                sent @ sendCloudFormationResponse e ev FAILED
                         (''Could not save package to disk: '' @ ex) None)
         | None \<Rightarrow>
             find_package e ev zs
               (True, files(''/tmp/'' @ entryName z \<mapsto> getData z), sent))
      else find_package e ev zs (packageFound, files, sent))"

text \<open>
  The synchronous part of one upload task, up to the call of \<^verbatim>\<open>s3.putObject\<close>:
  the entry is extracted under the deployment directory and the file read back, so
  \<^verbatim>\<open>fileData\<close> is the entry's content. \<open>None\<close> when the extraction throws.
\<close>

definition task :: "env \<Rightarrow> string \<Rightarrow> zipEntry \<Rightarrow> putObject_params option" where
  "task e destinationBucket entry =
     (case extractEntryTo e entry deploymentDir of
        Some ex \<Rightarrow> None
      | None \<Rightarrow>
          let fileName = deploymentDir @ ''/'' @ entryName entry;
              fileData = getData entry
          in Some \<lparr>Bucket = destinationBucket,
                   Key = entryName entry,
                   ContentLength = length fileData,
                   Body = fileData,
                   ContentType = mime_getType e fileName\<rparr>)"

text \<open>
  The callback of \<^verbatim>\<open>cloudfront.createInvalidation\<close>: on an error it sends the FAILED
  response and, there being no \<^verbatim>\<open>return\<close>, goes on to the SUCCESS response.
\<close>

definition createInvalidation_callback ::
  "env \<Rightarrow> event \<Rightarrow> string \<Rightarrow> string option list \<Rightarrow> string option \<Rightarrow> action list" where
  "createInvalidation_callback e ev physicalResourceId result err =
     (case err of
        None \<Rightarrow> []
      | Some x \<Rightarrow>
          sendCloudFormationResponse e ev FAILED
            (''Error while uploading '' @ join_results result
               @ '' to destination bucket: '' @ x) None)
     @ sendCloudFormationResponse e ev SUCCESS ''OK'' (Some physicalResourceId)"

text \<open>
  The final callback of \<^verbatim>\<open>async.parallel\<close>: \<open>Inl result\<close> when it is called with an
  error, \<open>Inr result\<close> when every task has succeeded. (In the message of the error branch
  \<^verbatim>\<open>${err}\<close> is the error of \<^verbatim>\<open>getObject\<close>, which is \<^verbatim>\<open>null\<close> here.)
\<close>

definition parallel_callback ::
  "env \<Rightarrow> event \<Rightarrow> string \<Rightarrow> string option list + string option list \<Rightarrow> action list" where
  "parallel_callback e ev physicalResourceId outcome =
     (case outcome of
        Inl result \<Rightarrow>
          sendCloudFormationResponse e ev FAILED
            (''Error while uploading '' @ join_results result
               @ '' to destination bucket: null'') None
      | Inr result \<Rightarrow>
          if truthy (CLOUD_FRONT_DISTRIBUTION_ID e) then
            let params = \<lparr>DistributionId = interpolate (CLOUD_FRONT_DISTRIBUTION_ID e),
                          CallerReference = Date_now e,
                          Quantity = 1,
                          Items = [''/*'']\<rparr>
            in CloudFront_createInvalidation params
               # (case client_rejects e (CloudFront_createInvalidation params) of
                    Some err \<Rightarrow>
                      createInvalidation_callback e ev physicalResourceId result (Some err)
                  | None \<Rightarrow>
                      Tick # createInvalidation_callback e ev physicalResourceId result
                               (cloudfront_createInvalidation e params))
          else sendCloudFormationResponse e ev SUCCESS ''OK'' (Some physicalResourceId))"

text \<open>
  The state of \<^verbatim>\<open>async.parallel\<close>: the results collected so far, the number of tasks
  that have succeeded, and whether the final callback has been called (it is called
  once).
\<close>

record parallel_state =
  results :: "string option list"
  completed :: nat
  called :: bool

text \<open>
  The callback that \<^verbatim>\<open>async.parallel\<close> hands to the task with index \<open>key\<close>, of
  \<open>n\<close> tasks, called with the answer to the upload \<open>p\<close>: a failed task reports its
  entry name and makes the final callback fail; the last task to succeed makes it
  succeed.
\<close>

definition task_callback ::
  "env \<Rightarrow> event \<Rightarrow> string \<Rightarrow> nat \<Rightarrow> nat \<Rightarrow> putObject_params \<Rightarrow> string + string option
     \<Rightarrow> parallel_state \<Rightarrow> action list \<times> parallel_state" where
  "task_callback e ev physicalResourceId n key p answer st =
     (case answer of
        Inl err \<Rightarrow>
          let rs = set_result (results st) key (Some (Key p))
          in if called st then ([], st\<lparr>results := rs\<rparr>)
             else (parallel_callback e ev physicalResourceId (Inl rs),
                   st\<lparr>results := rs, called := True\<rparr>)
      | Inr k \<Rightarrow>
          let rs = set_result (results st) key k;
              c = Suc (completed st)
          in if \<not> called st \<and> c = n
             then (parallel_callback e ev physicalResourceId (Inr rs),
                   st\<lparr>results := rs, completed := c, called := True\<rparr>)
             else ([], st\<lparr>results := rs, completed := c\<rparr>))"

text \<open>
  \<^verbatim>\<open>async.parallel\<close> starts the tasks one after the other, from the index \<open>key\<close> on.
  The result is the actions of the loop, the uploads in flight when it ends, the state,
  and whether every task was started: a task that throws ends the process. An upload
  that the client refuses is answered inside the loop, which goes on with the next task.
\<close>

fun start_tasks ::
  "env \<Rightarrow> event \<Rightarrow> string \<Rightarrow> string \<Rightarrow> nat \<Rightarrow> nat \<Rightarrow> zipEntry list \<Rightarrow> parallel_state
     \<Rightarrow> action list \<times> (nat \<times> putObject_params) list \<times> parallel_state \<times> bool" where
  "start_tasks e ev destinationBucket physicalResourceId n key [] st = ([], [], st, True)"
| "start_tasks e ev destinationBucket physicalResourceId n key (entry # entries) st =
     (case task e destinationBucket entry of
        None \<Rightarrow> ([Uncaught], [], st, False)
      | Some p \<Rightarrow>
          (case client_rejects e (S3_putObject p) of
             Some err \<Rightarrow>
               (case task_callback e ev physicalResourceId n key p (Inl err) st of
                  (sent, st') \<Rightarrow>
                    (case start_tasks e ev destinationBucket physicalResourceId n (Suc key)
                            entries st' of
                       (issued, in_flight, st'', started) \<Rightarrow>
                         (S3_putObject p # sent @ issued, in_flight, st'', started)))
           | None \<Rightarrow>
               (case start_tasks e ev destinationBucket physicalResourceId n (Suc key)
                       entries st of
                  (issued, in_flight, st', started) \<Rightarrow>
                    (S3_putObject p # issued, (key, p) # in_flight, st', started))))"

text \<open>The answers to the uploads in flight, one tick each.\<close>

fun answer_tasks ::
  "env \<Rightarrow> event \<Rightarrow> string \<Rightarrow> nat \<Rightarrow> (nat \<times> putObject_params) list \<Rightarrow> parallel_state
     \<Rightarrow> action list" where
  "answer_tasks e ev physicalResourceId n [] st = []"
| "answer_tasks e ev physicalResourceId n ((key, p) # in_flight) st =
     (case task_callback e ev physicalResourceId n key p (s3_putObject e p) st of
        (sent, st') \<Rightarrow> Tick # sent @ answer_tasks e ev physicalResourceId n in_flight st')"

text \<open>
  The part of the \<^verbatim>\<open>s3.getObject\<close> callback after the package was found: the inner
  archive is opened and one task per entry that is not a directory is handed to
  \<^verbatim>\<open>async.parallel\<close>, which calls the final callback at once when there is no task.
  (Clearing and recreating the deployment directory leaves no trace: each task
  overwrites the file it reads.)
\<close>

definition publish ::
  "env \<Rightarrow> event \<Rightarrow> string \<Rightarrow> string \<Rightarrow> (string \<Rightarrow> string option) \<Rightarrow> action list" where
  "publish e ev destinationBucket physicalResourceId files =
     (case AdmZip_open e files tmpPackageZip of
        None \<Rightarrow> [Uncaught]
      | Some packageEntries \<Rightarrow>
          let asyncTasks = filter (\<lambda>entry. \<not> isDirectory entry) packageEntries
          in if asyncTasks = [] then parallel_callback e ev physicalResourceId (Inr [])
             else
               (case start_tasks e ev destinationBucket physicalResourceId
                       (length asyncTasks) 0 asyncTasks
                       \<lparr>results = [], completed = 0, called = False\<rparr> of
                  (issued, in_flight, st, started) \<Rightarrow>
                    issued
                    @ (if started
                       then answer_tasks e ev physicalResourceId (length asyncTasks)
                              in_flight st
                       else [])))"

text \<open>The callback of \<^verbatim>\<open>s3.getObject\<close>.\<close>

definition getObject_callback ::
  "env \<Rightarrow> event \<Rightarrow> string \<Rightarrow> string \<Rightarrow> string \<Rightarrow> string \<Rightarrow> string + string \<Rightarrow> action list" where
  "getObject_callback e ev sourceBucket sourceArtifact destinationBucket physicalResourceId
       answer =
     (case answer of
        Inl err \<Rightarrow>
          sendCloudFormationResponse e ev FAILED
            (''Could not fetch artifact: '' @ sourceBucket @ ''/'' @ sourceArtifact
               @ '': '' @ err) None
      | Inr body \<Rightarrow>
          (case fs_writeFileSync e tmpSourceArtifact body of
             Some ex \<Rightarrow>
               sendCloudFormationResponse e ev FAILED
                 (''Could not save artifact to disk: '' @ ex) None
           | None \<Rightarrow>
               (case AdmZip_open e ((tmp_files e)(tmpSourceArtifact \<mapsto> body)) tmpSourceArtifact of
                  None \<Rightarrow> [Uncaught]
                | Some zipEntries \<Rightarrow>
                    (case find_package e ev zipEntries
                            (False, (tmp_files e)(tmpSourceArtifact \<mapsto> body), []) of
                       (packageFound, files, sent) \<Rightarrow>
                         sent
                         @ (if \<not> packageFound then
                              sendCloudFormationResponse e ev FAILED
                                ''Could not package.zip in artifact'' None
                            else publish e ev destinationBucket physicalResourceId files)))))"

text \<open>
  The guard of \<^verbatim>\<open>uploadArtifacts\<close>:
  \<^verbatim>\<open>!resourceOptions || !resourceOptions.SourceBucket || ...\<close>.
\<close>

definition missing_required_options :: "options option \<Rightarrow> bool" where
  "missing_required_options resourceOptions =
     (case resourceOptions of
        None \<Rightarrow> True
      | Some ro \<Rightarrow>
          \<not> truthy (SourceBucket ro) \<or> \<not> truthy (SourceArtifact ro)
          \<or> \<not> truthy (DestinationBucket ro))"

definition uploadArtifacts :: "env \<Rightarrow> event \<Rightarrow> options option \<Rightarrow> action list" where
  "uploadArtifacts e ev resourceOptions =
     (if missing_required_options resourceOptions then
        sendCloudFormationResponse e ev FAILED
          ''Missing required options: SourceBucket, SourceArtifact, DestinationBucket'' None
      else
        let sourceBucket = interpolate (Option.bind resourceOptions SourceBucket);
            sourceArtifact = interpolate (Option.bind resourceOptions SourceArtifact);
            destinationBucket = interpolate (Option.bind resourceOptions DestinationBucket);
            physicalResourceId = ''Deployment::'' @ destinationBucket
        in S3_getObject sourceBucket sourceArtifact
           # (case client_rejects e (S3_getObject sourceBucket sourceArtifact) of
                Some err \<Rightarrow>
                  getObject_callback e ev sourceBucket sourceArtifact destinationBucket
                    physicalResourceId (Inl err)
              | None \<Rightarrow>
                  Tick # getObject_callback e ev sourceBucket sourceArtifact destinationBucket
                           physicalResourceId
                           (s3_getObject e sourceBucket sourceArtifact)))"

subsection \<open>DeploymentOrchestrator\<close>

definition handler :: "env \<Rightarrow> event \<Rightarrow> action list" where
  "handler e ev =
     (let resourceOptions =
        (if RequestType ev = DELETE
         then Some \<lparr>SourceBucket = None, SourceArtifact = None, DestinationBucket = None\<rparr>
         else Options ev)
      in if LogicalResourceId ev \<noteq> ''WebsiteDeployment'' then
           sendCloudFormationResponse e ev FAILED
             (''Invalid LogicalResourceId: '' @ LogicalResourceId ev) None
         else if RequestType ev = CREATE \<or> RequestType ev = UPDATE then
           uploadArtifacts e ev resourceOptions
         else if RequestType ev = DELETE then
           cleanBucket e ev (PhysicalResourceId ev)
         else
           sendCloudFormationResponse e ev FAILED
             (''Invalid request type '' @ RequestType ev) None)"

subsection \<open>Reading a trace\<close>

text \<open>The callback responses of a trace, in the order in which they were sent.\<close>

fun responses :: "action list \<Rightarrow> response_body list" where
  "responses [] = []"
| "responses (Https_PUT u b # as) = b # responses as"
| "responses (a # as) = responses as"

text \<open>
  Whether an action is a call of the client of the object store or of the edge cache
  (whether or not the client lets the call through).
\<close>

fun is_store_or_cache_call :: "action \<Rightarrow> bool" where
  "is_store_or_cache_call (Https_PUT u b) = False"
| "is_store_or_cache_call Tick = False"
| "is_store_or_cache_call Uncaught = False"
| "is_store_or_cache_call a = True"

text \<open>The uploads of a trace, in the order in which they were issued.\<close>

fun uploads :: "action list \<Rightarrow> putObject_params list" where
  "uploads [] = []"
| "uploads (S3_putObject p # as) = p # uploads as"
| "uploads (a # as) = uploads as"


text \<open>
  The responses of a trace whose HTTP PUT gets its answer: those of the ticks that end
  without an uncaught exception, which ends the process before a PUT of its own tick can
  be answered. \<open>pending\<close> holds the responses sent so far in the current tick. (A
  response of an earlier tick counts as answered; in a run of the handler no response
  precedes the tick that throws, as the theorem on completions shows.)
\<close>

fun answered :: "response_body list \<Rightarrow> action list \<Rightarrow> response_body list" where
  "answered pending [] = pending"
| "answered pending (Tick # as) = pending @ answered [] as"
| "answered pending (Uncaught # as) = []"
| "answered pending (Https_PUT u b # as) = answered (pending @ [b]) as"
| "answered pending (a # as) = answered pending as"

text \<open>
  The completions of the invocation in a trace: the arguments with which the completion
  callback is called, listed by response.
\<close>

definition completions :: "env \<Rightarrow> event \<Rightarrow> action list \<Rightarrow> (string option \<times> string option) list" where
  "completions e ev t = map (completion e ev) (answered [] t)"

text \<open>A trace that ends its only tick with an uncaught exception.\<close>

definition crashes :: "action list \<Rightarrow> bool" where
  "crashes t = (\<exists>mid. t = mid @ [Uncaught] \<and> Tick \<notin> set mid)"

text \<open>
  What holds of every action of the Create/Update path: a SUCCESS response carries the
  given physical resource id, and an upload carries the content type that
  \<^verbatim>\<open>mime.getType\<close> answers for its file.
\<close>

definition ok_action :: "env \<Rightarrow> string \<Rightarrow> action \<Rightarrow> bool" where
  "ok_action e pid a =
     (case a of
        Https_PUT u b \<Rightarrow> Status b = SUCCESS \<longrightarrow> resp_PhysicalResourceId b = pid
      | S3_putObject p \<Rightarrow> ContentType p = mime_getType e (''/tmp/dist/'' @ Key p)
      | _ \<Rightarrow> True)"

subsection \<open>Concrete worlds and requests\<close>

text \<open>
  The entries of the two archives of the worlds below: the fetched artifact and the
  package in it.
\<close>

definition package_entry :: zipEntry where
  "package_entry = \<lparr>entryName = ''package.zip'', isDirectory = False, getData = ''PACKAGE''\<rparr>"

definition a_txt :: zipEntry where
  "a_txt = \<lparr>entryName = ''a.txt'', isDirectory = False, getData = ''hello''\<rparr>"

definition b_dir :: zipEntry where
  "b_dir = \<lparr>entryName = ''b/'', isDirectory = True, getData = []\<rparr>"

definition b_c_css :: zipEntry where
  "b_c_css = \<lparr>entryName = ''b/c.css'', isDirectory = False, getData = ''p{}''\<rparr>"

text \<open>
  The S3 client validates the parameters of a call before it sends anything: it refuses
  \<^verbatim>\<open>listObjects\<close> without a bucket name or with an empty one.
\<close>

fun refuses_bucket :: "action \<Rightarrow> string option" where
  "refuses_bucket (S3_listObjects None) = Some ''MissingRequiredParameter''"
| "refuses_bucket (S3_listObjects (Some b)) =
     (if b = [] then Some ''UriParameterError'' else None)"
| "refuses_bucket a = None"

text \<open>
  A world in which every collaborator succeeds. The fetched artifact holds
  \<^verbatim>\<open>package.zip\<close>, whose files are \<^verbatim>\<open>a.txt\<close> and \<^verbatim>\<open>b/c.css\<close>; an edge-cache
  distribution is configured.
\<close>

definition world :: env where
  "world =
     \<lparr>CLOUD_FRONT_DISTRIBUTION_ID = Some ''E2ABC'',
      logStreamName = ''2026/stream'',
      Date_now = ''1700000000000'',
      tmp_files = Map.empty,
      client_rejects = refuses_bucket,
      s3_getObject = (\<lambda>b k. Inr ''ARTIFACT''),
      s3_listObjects = (\<lambda>b. Inr [''index.html'', ''app.js'']),
      s3_deleteObject = (\<lambda>b k. None),
      s3_putObject = (\<lambda>p. Inr None),
      cloudfront_createInvalidation = (\<lambda>p. None),
      https_request = (\<lambda>u b. None),
      fs_writeFileSync = (\<lambda>p d. None),
      AdmZip = (\<lambda>bytes.
        if bytes = ''ARTIFACT'' then Some [package_entry]
        else if bytes = ''PACKAGE'' then Some [a_txt, b_dir, b_c_css]
        else None),
      extractEntryTo = (\<lambda>z d. None),
      mime_getType = (\<lambda>f.
        if f = ''/tmp/dist/a.txt'' then Some ''text/plain''
        else if f = ''/tmp/dist/b/c.css'' then Some ''text/css''
        else None)\<rparr>"

text \<open>A request of the given kind for the supported logical resource.\<close>

definition request :: "string \<Rightarrow> event" where
  "request t =
     \<lparr>LogicalResourceId = ''WebsiteDeployment'',
      RequestType = t,
      Options = Some \<lparr>SourceBucket = Some ''src'', SourceArtifact = Some ''build.zip'',
                      DestinationBucket = Some ''site''\<rparr>,
      PhysicalResourceId = Some ''Deployment::site'',
      ResponseURL = ''https://cfn.example/response'',
      StackId = ''stack-1'',
      RequestId = ''req-1''\<rparr>"

text \<open>An Update request whose options lack the source artifact.\<close>

definition request_without_artifact :: event where
  "request_without_artifact =
     (request UPDATE)\<lparr>Options :=
        Some \<lparr>SourceBucket = Some ''src'', SourceArtifact = None,
              DestinationBucket = Some ''site''\<rparr>\<rparr>"


text \<open>A world in which the edge cache refuses the invalidation.\<close>

definition world_invalidation_fails :: env where
  "world_invalidation_fails =
     world\<lparr>cloudfront_createInvalidation := (\<lambda>p. Some ''AccessDenied'')\<rparr>"

text \<open>A world in which the HTTP PUT to the response URL fails.\<close>

definition world_put_fails :: env where
  "world_put_fails = world\<lparr>https_request := (\<lambda>u b. Some ''ECONNRESET'')\<rparr>"

text \<open>
  A world in which the package cannot be saved to disk and no package is left from an
  earlier invocation.
\<close>

definition world_package_not_saved :: env where
  "world_package_not_saved =
     world\<lparr>extractEntryTo := (\<lambda>z d. if d = ''/tmp'' then Some ''ENOSPC'' else None)\<rparr>"

text \<open>
  A world whose package holds a file without an extension, for which
  \<^verbatim>\<open>mime.getType\<close> answers \<^verbatim>\<open>null\<close>.
\<close>

definition world_with_license :: env where
  "world_with_license =
     world\<lparr>AdmZip := (\<lambda>bytes.
        if bytes = ''ARTIFACT'' then Some [package_entry]
        else if bytes = ''PACKAGE'' then
          Some [a_txt, \<lparr>entryName = ''LICENSE'', isDirectory = False, getData = ''MIT''\<rparr>]
        else None)\<rparr>"

text \<open>The SUCCESS response to \<open>request t\<close> in these worlds.\<close>

definition success_body :: response_body where
  "success_body =
     \<lparr>Status = ''SUCCESS'',
      Reason = ''See the details in CloudWatch Log Stream: 2026/stream'',
      resp_PhysicalResourceId = ''Deployment::site'',
      resp_StackId = ''stack-1'',
      resp_RequestId = ''req-1'',
      resp_LogicalResourceId = ''WebsiteDeployment'',
      Data = ''OK''\<rparr>"

text \<open>The upload of \<^verbatim>\<open>a.txt\<close> in these worlds.\<close>

definition upload_a_txt :: putObject_params where
  "upload_a_txt =
     \<lparr>Bucket = ''site'', Key = ''a.txt'', ContentLength = 5, Body = ''hello'',
      ContentType = Some ''text/plain''\<rparr>"

section \<open>Properties\<close>

lemmas constants_defs = SUCCESS_def FAILED_def UPDATE_def CREATE_def DELETE_def

lemmas path_defs = tmpSourceArtifact_def tmpPackageZip_def deploymentDir_def

lemmas run_defs =
  handler_def uploadArtifacts_def missing_required_options_def getObject_callback_def
  publish_def parallel_callback_def createInvalidation_callback_def task_callback_def
  set_result_def task_def AdmZip_open_def cleanBucket_def listObjects_callback_def
  deleteObject_callback_def second_piece_def sendCloudFormationResponse_def
  completions_def completion_def truthy_def interpolate_def constants_defs path_defs Let_def

lemmas world_defs =
  world_def request_def package_entry_def a_txt_def b_dir_def b_c_css_def

subsection \<open>What one response looks like\<close>

lemma responses_send:
  "responses (sendCloudFormationResponse e ev st d pid) =
     [\<lparr>Status = st,
       Reason = ''See the details in CloudWatch Log Stream: '' @ logStreamName e,
       resp_PhysicalResourceId =
         (case pid of
            None \<Rightarrow> logStreamName e
          | Some p \<Rightarrow> if p \<noteq> [] then p else logStreamName e),
       resp_StackId = StackId ev,
       resp_RequestId = RequestId ev,
       resp_LogicalResourceId = LogicalResourceId ev,
       Data = d\<rparr>]"
  by (simp add: sendCloudFormationResponse_def Let_def)

lemma no_calls_send:
  "filter is_store_or_cache_call (sendCloudFormationResponse e ev st d pid) = []"
  by (simp add: sendCloudFormationResponse_def Let_def)

lemma responses_append: "responses (xs @ ys) = responses xs @ responses ys"
  by (induction xs rule: responses.induct) simp_all

lemma uploads_append: "uploads (xs @ ys) = uploads xs @ uploads ys"
  by (induction xs rule: uploads.induct) simp_all

lemma response_in_trace: "b \<in> set (responses t) \<Longrightarrow> \<exists>u. Https_PUT u b \<in> set t"
  by (induction t rule: responses.induct) auto

lemma upload_in_trace: "p \<in> set (uploads t) \<Longrightarrow> S3_putObject p \<in> set t"
  by (induction t rule: uploads.induct) auto

lemma send_is_put:
  "a \<in> set (sendCloudFormationResponse e ev st d pid)
     \<Longrightarrow> \<exists>b. a = Https_PUT (ResponseURL ev) b \<and> Status b = st
            \<and> resp_PhysicalResourceId b =
                (case pid of
                   None \<Rightarrow> logStreamName e
                 | Some p \<Rightarrow> if p \<noteq> [] then p else logStreamName e)"
  by (simp add: sendCloudFormationResponse_def Let_def)

text \<open>
  Whatever the outer archive holds, the loop over its entries sends nothing but FAILED
  responses.
\<close>

lemma find_package_sent:
  "\<exists>msgs. snd (snd (find_package e ev zs (found, files, sent))) =
            sent @ concat (map (\<lambda>m. sendCloudFormationResponse e ev FAILED m None) msgs)"
proof (induction zs arbitrary: found files sent)
  case Nil
  have "snd (snd (find_package e ev [] (found, files, sent))) =
          sent @ concat (map (\<lambda>m. sendCloudFormationResponse e ev FAILED m None) [])"
    by simp
  then show ?case by blast
next
  case (Cons z zs)
  show ?case
  proof (cases "entryName z = ''package.zip''")
    case False
    then have step:
      "find_package e ev (z # zs) (found, files, sent) =
         find_package e ev zs (found, files, sent)"
      by simp
    show ?thesis unfolding step by (rule Cons.IH)
  next
    case True
    show ?thesis
    proof (cases "extractEntryTo e z ''/tmp''")
      case None
      with True have step:
        "find_package e ev (z # zs) (found, files, sent) =
           find_package e ev zs (True, files(''/tmp/'' @ entryName z \<mapsto> getData z), sent)"
        by simp
      show ?thesis unfolding step by (rule Cons.IH)
    next
      case (Some ex)
      obtain msgs where
        "snd (snd (find_package e ev zs
           (True, files,
            sent @ sendCloudFormationResponse e ev FAILED
                     (''Could not save package to disk: '' @ ex) None))) =
         (sent @ sendCloudFormationResponse e ev FAILED
                   (''Could not save package to disk: '' @ ex) None)
         @ concat (map (\<lambda>m. sendCloudFormationResponse e ev FAILED m None) msgs)"
        using Cons.IH by blast
      then have "snd (snd (find_package e ev (z # zs) (found, files, sent))) =
         sent @ concat (map (\<lambda>m. sendCloudFormationResponse e ev FAILED m None)
                          ((''Could not save package to disk: '' @ ex) # msgs))"
        using True Some by simp
      then show ?thesis by blast
    qed
  qed
qed

lemma find_package_sends_failed:
  assumes "find_package e ev zs (found, files, []) = (found', files', sent')"
    and "a \<in> set sent'"
  shows "\<exists>b. a = Https_PUT (ResponseURL ev) b \<and> Status b = FAILED"
proof -
  obtain msgs where
    "sent' = concat (map (\<lambda>m. sendCloudFormationResponse e ev FAILED m None) msgs)"
    using find_package_sent [of e ev zs found files "[]"] assms(1) by auto
  with assms(2) show ?thesis
    by (auto dest: send_is_put)
qed

subsection \<open>Validation failures\<close>

text \<open>
  C5. A request whose \<^verbatim>\<open>LogicalResourceId\<close> is not \<^verbatim>\<open>WebsiteDeployment\<close> gets one
  response, with status FAILED and the message \<^verbatim>\<open>Invalid LogicalResourceId: <id>\<close>, and
  the handler calls neither the object store nor the edge cache.
\<close>

theorem invalid_logical_id_fails:
  assumes "LogicalResourceId ev \<noteq> ''WebsiteDeployment''"
  shows "map Status (responses (handler e ev)) = [FAILED]
       \<and> map Data (responses (handler e ev))
           = [''Invalid LogicalResourceId: '' @ LogicalResourceId ev]
       \<and> filter is_store_or_cache_call (handler e ev) = []"
  using assms by (simp add: handler_def Let_def responses_send no_calls_send)

theorem invalid_logical_id_fails_witness:
  "LogicalResourceId ((request CREATE)\<lparr>LogicalResourceId := ''Database''\<rparr>)
     \<noteq> ''WebsiteDeployment''
   \<and> map Status
         (responses (handler world ((request CREATE)\<lparr>LogicalResourceId := ''Database''\<rparr>)))
       = [FAILED]
   \<and> map Data
         (responses (handler world ((request CREATE)\<lparr>LogicalResourceId := ''Database''\<rparr>)))
       = [''Invalid LogicalResourceId: Database'']
   \<and> filter is_store_or_cache_call
         (handler world ((request CREATE)\<lparr>LogicalResourceId := ''Database''\<rparr>)) = []"
proof -
  have h: "LogicalResourceId ((request CREATE)\<lparr>LogicalResourceId := ''Database''\<rparr>)
             \<noteq> ''WebsiteDeployment''"
    by (simp add: request_def)
  show ?thesis
    using h invalid_logical_id_fails [OF h, of world] by simp
qed

text \<open>
  C6. A Create or Update request for the supported logical resource whose options lack
  \<^verbatim>\<open>SourceBucket\<close>, \<^verbatim>\<open>SourceArtifact\<close> or \<^verbatim>\<open>DestinationBucket\<close> (the options are
  absent, or one of the three is absent or empty) gets one response, with status FAILED
  and a message that names the three required options; the handler does nothing else,
  so no call of the object store or of the edge cache is made.
\<close>

theorem missing_options_fail:
  assumes "LogicalResourceId ev = ''WebsiteDeployment''"
    and "RequestType ev = CREATE \<or> RequestType ev = UPDATE"
    and "missing_required_options (Options ev)"
  shows "handler e ev =
           sendCloudFormationResponse e ev FAILED
             ''Missing required options: SourceBucket, SourceArtifact, DestinationBucket'' None
       \<and> map Status (responses (handler e ev)) = [FAILED]
       \<and> map Data (responses (handler e ev))
           = [''Missing required options: SourceBucket, SourceArtifact, DestinationBucket'']
       \<and> filter is_store_or_cache_call (handler e ev) = []"
  using assms
  by (auto simp add: handler_def uploadArtifacts_def Let_def responses_send no_calls_send
      constants_defs)

theorem missing_options_fail_witness:
  "LogicalResourceId request_without_artifact = ''WebsiteDeployment''
   \<and> (RequestType request_without_artifact = CREATE
        \<or> RequestType request_without_artifact = UPDATE)
   \<and> missing_required_options (Options request_without_artifact)
   \<and> handler world request_without_artifact =
        sendCloudFormationResponse world request_without_artifact FAILED
          ''Missing required options: SourceBucket, SourceArtifact, DestinationBucket'' None
   \<and> map Status (responses (handler world request_without_artifact)) = [FAILED]
   \<and> map Data (responses (handler world request_without_artifact))
       = [''Missing required options: SourceBucket, SourceArtifact, DestinationBucket'']
   \<and> filter is_store_or_cache_call (handler world request_without_artifact) = []"
proof -
  have h1: "LogicalResourceId request_without_artifact = ''WebsiteDeployment''"
    by (simp add: request_without_artifact_def request_def)
  have h2: "RequestType request_without_artifact = CREATE
            \<or> RequestType request_without_artifact = UPDATE"
    by (simp add: request_without_artifact_def request_def)
  have h3: "missing_required_options (Options request_without_artifact)"
    by (simp add: request_without_artifact_def request_def missing_required_options_def
        truthy_def)
  show ?thesis
    using h1 h2 h3 missing_options_fail [OF h1 h2 h3, of world] by blast
qed

subsection \<open>The Delete path\<close>

text \<open>
  C3, as the code has it. The only check of the physical resource id is
  \<^verbatim>\<open>if (!resourceId)\<close>: a Delete request for the supported logical resource whose
  physical resource id is absent or empty gets one response, with status FAILED, and no
  call of the object store or of the edge cache is made.
\<close>

theorem absent_physical_id_fails:
  assumes "LogicalResourceId ev = ''WebsiteDeployment''"
    and "RequestType ev = DELETE"
    and "PhysicalResourceId ev = None \<or> PhysicalResourceId ev = Some []"
  shows "map Status (responses (handler e ev)) = [FAILED]
       \<and> map Data (responses (handler e ev))
           = [''Invalid physical resource id: '' @ interpolate (PhysicalResourceId ev)]
       \<and> filter is_store_or_cache_call (handler e ev) = []"
  using assms
  by (auto simp add: handler_def cleanBucket_def truthy_def Let_def responses_send
      no_calls_send constants_defs)

theorem absent_physical_id_fails_witness:
  "LogicalResourceId ((request DELETE)\<lparr>PhysicalResourceId := None\<rparr>) = ''WebsiteDeployment''
   \<and> RequestType ((request DELETE)\<lparr>PhysicalResourceId := None\<rparr>) = DELETE
   \<and> map Status (responses (handler world ((request DELETE)\<lparr>PhysicalResourceId := None\<rparr>)))
       = [FAILED]
   \<and> map Data (responses (handler world ((request DELETE)\<lparr>PhysicalResourceId := None\<rparr>)))
       = [''Invalid physical resource id: undefined'']
   \<and> filter is_store_or_cache_call
         (handler world ((request DELETE)\<lparr>PhysicalResourceId := None\<rparr>)) = []"
proof -
  have h1: "LogicalResourceId ((request DELETE)\<lparr>PhysicalResourceId := None\<rparr>)
              = ''WebsiteDeployment''"
    by (simp add: request_def)
  have h2: "RequestType ((request DELETE)\<lparr>PhysicalResourceId := None\<rparr>) = DELETE"
    by (simp add: request_def)
  have h3: "PhysicalResourceId ((request DELETE)\<lparr>PhysicalResourceId := None\<rparr>) = None
            \<or> PhysicalResourceId ((request DELETE)\<lparr>PhysicalResourceId := None\<rparr>) = Some []"
    by simp
  show ?thesis
    using h1 h2 absent_physical_id_fails [OF h1 h2 h3, of world]
    by (simp add: interpolate_def)
qed

text \<open>
  C3, as the claim states it, fails: for the physical resource id \<^verbatim>\<open>site\<close>, which has
  no \<^verbatim>\<open>::\<close> separator, the handler does call \<^verbatim>\<open>listObjects\<close>, without a bucket
  name. The client refuses the call, so that the callback sends its FAILED response
  inside the call; the handler then sends a SUCCESS response that echoes the id.
\<close>

theorem malformed_physical_id_counterexample:
  "filter is_store_or_cache_call
     (handler world ((request DELETE)\<lparr>PhysicalResourceId := Some ''site''\<rparr>))
     = [S3_listObjects None]
   \<and> map Status
       (responses (handler world ((request DELETE)\<lparr>PhysicalResourceId := Some ''site''\<rparr>)))
     = [''FAILED'', ''SUCCESS'']
   \<and> map resp_PhysicalResourceId
       (responses (handler world ((request DELETE)\<lparr>PhysicalResourceId := Some ''site''\<rparr>)))
     = [''2026/stream'', ''site'']"
  by (simp add: run_defs world_defs)




subsection \<open>One response per invocation\<close>

text \<open>
  C1 fails on the code. When every file was published and the invalidation fails, the
  callback of \<^verbatim>\<open>createInvalidation\<close> sends the FAILED response without returning and
  goes on to send the SUCCESS response: the invocation sends two responses.
\<close>

theorem two_responses_when_invalidation_fails:
  "length (responses (handler world_invalidation_fails (request UPDATE))) = 2"
  by (simp add: run_defs world_defs world_invalidation_fails_def)

text \<open>
  C2 fails on the code, by the same missing \<^verbatim>\<open>return\<close>. Both files are published,
  the invalidation fails, and the responses sent are FAILED and then SUCCESS: the last
  outcome signaled is SUCCESS.
\<close>

theorem success_sent_after_invalidation_failure:
  "map Key (uploads (handler world_invalidation_fails (request CREATE)))
     = [''a.txt'', ''b/c.css'']
   \<and> map Status (responses (handler world_invalidation_fails (request CREATE)))
       = [''FAILED'', ''SUCCESS'']"
  by (simp add: run_defs world_defs world_invalidation_fails_def)

subsection \<open>The completion of the invocation\<close>

lemma answered_calm: "Uncaught \<notin> set t \<Longrightarrow> answered pending t = pending @ responses t"
  by (induction pending t rule: answered.induct) simp_all

lemma answered_crash:
  "Tick \<notin> set mid \<Longrightarrow> answered pending (mid @ Uncaught # rest) = []"
  by (induction pending mid rule: answered.induct) simp_all

lemma crashes_Uncaught: "crashes [Uncaught]"
  by (simp add: crashes_def)

lemma crashes_append: "Tick \<notin> set xs \<Longrightarrow> crashes t \<Longrightarrow> crashes (xs @ t)"
  by (auto simp add: crashes_def)

lemma crashes_answered: "crashes t \<Longrightarrow> answered pending t = [] \<and> Uncaught \<in> set t"
  by (auto simp add: crashes_def answered_crash)

lemma quiet_send:
  "Tick \<notin> set (sendCloudFormationResponse e ev st d pid)
   \<and> Uncaught \<notin> set (sendCloudFormationResponse e ev st d pid)"
  by (simp add: sendCloudFormationResponse_def Let_def)

lemma quiet_find_package:
  assumes "find_package e ev zs (found, files, []) = (found', files', sent')"
  shows "Tick \<notin> set sent' \<and> Uncaught \<notin> set sent'"
  using find_package_sends_failed [OF assms] by auto

lemma calm_createInvalidation_callback:
  "Uncaught \<notin> set (createInvalidation_callback e ev pid result err)"
  by (simp add: createInvalidation_callback_def quiet_send split: option.splits)

lemma calm_parallel_callback: "Uncaught \<notin> set (parallel_callback e ev pid outcome)"
  by (simp add: parallel_callback_def Let_def quiet_send calm_createInvalidation_callback
      split: sum.splits option.splits)

lemma calm_task_callback:
  "task_callback e ev pid n key p answer st = (sent, st') \<Longrightarrow> Uncaught \<notin> set sent"
  using calm_parallel_callback [of e ev pid]
  by (auto simp add: task_callback_def Let_def split: sum.splits if_splits)

lemma quiet_task_callback_error:
  "task_callback e ev pid n key p (Inl err) st = (sent, st') \<Longrightarrow> Tick \<notin> set sent"
  by (auto simp add: task_callback_def parallel_callback_def Let_def quiet_send
      split: if_splits)

lemma calm_answer_tasks: "Uncaught \<notin> set (answer_tasks e ev pid n in_flight st)"
proof (induction in_flight arbitrary: st)
  case Nil
  then show ?case by simp
next
  case (Cons kp in_flight)
  obtain key p where kp: "kp = (key, p)" by (cases kp)
  obtain sent st' where cb: "task_callback e ev pid n key p (s3_putObject e p) st = (sent, st')"
    by (cases "task_callback e ev pid n key p (s3_putObject e p) st")
  show ?case
    using Cons.IH [of st'] calm_task_callback [OF cb] by (simp add: kp cb)
qed

lemma start_tasks_shape:
  "start_tasks e ev d pid n key entries st = (issued, in_flight, st', started)
     \<Longrightarrow> Tick \<notin> set issued
         \<and> (if started then Uncaught \<notin> set issued else crashes issued)"
proof (induction entries arbitrary: key st issued in_flight st' started)
  case Nil
  then show ?case by auto
next
  case (Cons entry entries)
  show ?case
  proof (cases "task e d entry")
    case None
    with Cons.prems show ?thesis by (auto simp add: crashes_Uncaught)
  next
    case (Some p)
    show ?thesis
    proof (cases "client_rejects e (S3_putObject p)")
      case None
      obtain issued1 in_flight1 st1 started1 where
        rest: "start_tasks e ev d pid n (Suc key) entries st = (issued1, in_flight1, st1, started1)"
        by (cases "start_tasks e ev d pid n (Suc key) entries st")
      from Cons.prems Some None rest
      have eq: "issued = S3_putObject p # issued1" "started = started1"
        by simp_all
      from Cons.IH [OF rest] show ?thesis
        using crashes_append [of "[S3_putObject p]" issued1] by (auto simp add: eq)
    next
      case (Some err)
      obtain sent st0 where cb: "task_callback e ev pid n key p (Inl err) st = (sent, st0)"
        by (cases "task_callback e ev pid n key p (Inl err) st")
      obtain issued1 in_flight1 st1 started1 where
        rest: "start_tasks e ev d pid n (Suc key) entries st0 = (issued1, in_flight1, st1, started1)"
        by (cases "start_tasks e ev d pid n (Suc key) entries st0")
      from Cons.prems \<open>task e d entry = Some p\<close> Some cb rest
      have eq: "issued = S3_putObject p # sent @ issued1" "started = started1"
        by simp_all
      have quiet: "Tick \<notin> set (S3_putObject p # sent)" "Uncaught \<notin> set (S3_putObject p # sent)"
        using quiet_task_callback_error [OF cb] calm_task_callback [OF cb] by simp_all
      from Cons.IH [OF rest] show ?thesis
        using quiet crashes_append [of "S3_putObject p # sent" issued1]
        by (auto simp add: eq)
    qed
  qed
qed

lemma publish_shape:
  "Uncaught \<notin> set (publish e ev d pid files) \<or> crashes (publish e ev d pid files)"
proof (cases "AdmZip_open e files tmpPackageZip")
  case None
  then show ?thesis by (simp add: publish_def crashes_Uncaught)
next
  case (Some packageEntries)
  let ?tasks = "filter (\<lambda>entry. \<not> isDirectory entry) packageEntries"
  show ?thesis
  proof (cases "?tasks = []")
    case True
    with Some show ?thesis by (simp add: publish_def calm_parallel_callback)
  next
    case False
    obtain issued in_flight st started where
      st: "start_tasks e ev d pid (length ?tasks) 0 ?tasks
             \<lparr>results = [], completed = 0, called = False\<rparr> = (issued, in_flight, st, started)"
      by (cases "start_tasks e ev d pid (length ?tasks) 0 ?tasks
             \<lparr>results = [], completed = 0, called = False\<rparr>")
    from start_tasks_shape [OF st] Some False st show ?thesis
      by (auto simp add: publish_def Let_def calm_answer_tasks)
  qed
qed

lemma getObject_callback_shape:
  "Uncaught \<notin> set (getObject_callback e ev sb sa d pid answer)
   \<or> crashes (getObject_callback e ev sb sa d pid answer)"
  using publish_shape [of e ev d pid]
  unfolding getObject_callback_def
  by (auto simp add: quiet_send crashes_Uncaught split: sum.splits option.splits prod.splits
      dest: quiet_find_package intro!: crashes_append)

lemma getObject_callback_answered:
  "answered [] (getObject_callback e ev sb sa d pid answer) =
     (if Uncaught \<in> set (getObject_callback e ev sb sa d pid answer) then []
      else responses (getObject_callback e ev sb sa d pid answer))"
  using getObject_callback_shape [of e ev sb sa d pid answer]
  by (auto simp add: answered_calm dest: crashes_answered)

lemma calm_send_answered:
  "answered [] (sendCloudFormationResponse e ev st d pid) =
     responses (sendCloudFormationResponse e ev st d pid)
   \<and> Uncaught \<notin> set (sendCloudFormationResponse e ev st d pid)"
  by (simp add: answered_calm quiet_send)

lemma uploadArtifacts_answered:
  "answered [] (uploadArtifacts e ev ro) =
     (if Uncaught \<in> set (uploadArtifacts e ev ro) then [] else responses (uploadArtifacts e ev ro))"
proof (cases "missing_required_options ro")
  case True
  then show ?thesis by (simp add: uploadArtifacts_def calm_send_answered)
next
  case False
  then show ?thesis
    by (simp add: uploadArtifacts_def Let_def getObject_callback_answered
        split: option.splits)
qed

lemma calm_listObjects_callback: "Uncaught \<notin> set (listObjects_callback e ev b answer)"
  by (auto simp add: listObjects_callback_def deleteObject_callback_def quiet_send
      split: sum.splits option.splits)

lemma calm_cleanBucket: "Uncaught \<notin> set (cleanBucket e ev rid)"
  by (simp add: cleanBucket_def Let_def quiet_send calm_listObjects_callback
      split: option.splits)

lemma handler_answered:
  "answered [] (handler e ev) =
     (if Uncaught \<in> set (handler e ev) then [] else responses (handler e ev))"
  unfolding handler_def Let_def
  by (simp add: calm_send_answered uploadArtifacts_answered calm_cleanBucket answered_calm)

text \<open>
  C10, as the code has it. The completion callback of a response runs once the HTTP PUT
  of the response has been answered or has failed. A run that ends with an uncaught
  exception completes nothing: its responses were all sent in the tick that throws. In
  every other run each response completes the invocation once: when its PUT is answered,
  with the status as the error if the status is FAILED and with no error otherwise, and
  with the response data; when its PUT fails, with the error
  \<^verbatim>\<open>http request error: <e>\<close> and no data, whatever the status.
\<close>

theorem completion_of_answered_responses:
  "completions e ev (handler e ev) =
     (if Uncaught \<in> set (handler e ev) then []
      else map (\<lambda>b. case https_request e (ResponseURL ev) b of
                      None \<Rightarrow> (if Status b = FAILED then Some FAILED else None, Some (Data b))
                    | Some err \<Rightarrow> (Some (''http request error: '' @ err), None))
             (responses (handler e ev)))"
proof -
  have "completion e ev =
          (\<lambda>b. case https_request e (ResponseURL ev) b of
                  None \<Rightarrow> (if Status b = FAILED then Some FAILED else None, Some (Data b))
                | Some err \<Rightarrow> (Some (''http request error: '' @ err), None))"
    by (auto simp add: completion_def fun_eq_iff split: option.splits)
  then show ?thesis
    by (simp add: completions_def handler_answered)
qed

theorem completion_of_answered_responses_witness:
  "Uncaught \<in> set (handler world_package_not_saved (request CREATE))
   \<and> map Status (responses (handler world_package_not_saved (request CREATE))) = [''FAILED'']
   \<and> completions world_package_not_saved (request CREATE)
        (handler world_package_not_saved (request CREATE)) = []
   \<and> Uncaught \<notin> set (handler world (request DELETE))
   \<and> map Status (responses (handler world (request DELETE))) = [''SUCCESS'']
   \<and> completions world (request DELETE) (handler world (request DELETE))
       = [(None, Some ''OK'')]"
proof -
  have c: "Uncaught \<in> set (handler world_package_not_saved (request CREATE))"
    by (simp add: run_defs world_defs world_package_not_saved_def)
  have s: "map Status (responses (handler world_package_not_saved (request CREATE)))
             = [''FAILED'']"
    by (simp add: run_defs world_defs world_package_not_saved_def)
  have d: "Uncaught \<notin> set (handler world (request DELETE))"
    by (simp add: run_defs world_defs)
  have r: "responses (handler world (request DELETE)) =
             [\<lparr>Status = ''SUCCESS'',
               Reason = ''See the details in CloudWatch Log Stream: 2026/stream'',
               resp_PhysicalResourceId = ''Deployment::site'',
               resp_StackId = ''stack-1'',
               resp_RequestId = ''req-1'',
               resp_LogicalResourceId = ''WebsiteDeployment'',
               Data = ''OK''\<rparr>]"
    by (simp add: run_defs world_defs)
  have p: "https_request world u b = None" for u b
    by (simp add: world_def)
  show ?thesis
    using c s d
      completion_of_answered_responses [of world_package_not_saved "request CREATE"]
      completion_of_answered_responses [of world "request DELETE"]
    by (simp add: r p FAILED_def)
qed

text \<open>
  C10, as the claim states it, fails: when the HTTP PUT fails, a SUCCESS outcome completes
  the invocation with an error.
\<close>

theorem completion_counterexample:
  "map Status (responses (handler world_put_fails (request CREATE))) = [''SUCCESS'']
   \<and> completions world_put_fails (request CREATE) (handler world_put_fails (request CREATE))
       = [(Some ''http request error: ECONNRESET'', None)]"
  by (simp add: run_defs world_defs world_put_fails_def)

subsection \<open>The actions of the Create/Update path\<close>

lemma ok_send_failed:
  "a \<in> set (sendCloudFormationResponse e ev FAILED d x) \<Longrightarrow> ok_action e pid a"
  by (auto simp add: ok_action_def constants_defs dest: send_is_put)

lemma ok_send_success:
  "pid \<noteq> [] \<Longrightarrow> a \<in> set (sendCloudFormationResponse e ev SUCCESS d (Some pid))
     \<Longrightarrow> ok_action e pid a"
  by (auto simp add: ok_action_def dest: send_is_put)

lemma ok_createInvalidation_callback:
  "pid \<noteq> [] \<Longrightarrow> a \<in> set (createInvalidation_callback e ev pid result err)
     \<Longrightarrow> ok_action e pid a"
  by (auto simp add: createInvalidation_callback_def split: option.splits
      dest: ok_send_failed ok_send_success)

lemma ok_parallel_callback:
  "pid \<noteq> [] \<Longrightarrow> a \<in> set (parallel_callback e ev pid outcome) \<Longrightarrow> ok_action e pid a"
  unfolding parallel_callback_def Let_def
  by (auto split: sum.splits option.splits if_splits
      dest: ok_send_failed ok_send_success ok_createInvalidation_callback
      simp add: ok_action_def)

lemma ok_task_callback:
  "pid \<noteq> [] \<Longrightarrow> task_callback e ev pid n key p answer st = (sent, st')
     \<Longrightarrow> a \<in> set sent \<Longrightarrow> ok_action e pid a"
  by (auto simp add: task_callback_def Let_def split: sum.splits if_splits
      dest: ok_parallel_callback)

lemma ok_task: "task e d entry = Some p \<Longrightarrow> ok_action e pid (S3_putObject p)"
  by (auto simp add: task_def ok_action_def deploymentDir_def Let_def split: option.splits)

lemma ok_start_tasks:
  "pid \<noteq> [] \<Longrightarrow> start_tasks e ev d pid n key entries st = (issued, in_flight, st', started)
     \<Longrightarrow> a \<in> set issued \<Longrightarrow> ok_action e pid a"
proof (induction entries arbitrary: key st issued in_flight st' started)
  case Nil
  then show ?case by simp
next
  case (Cons entry entries)
  show ?case
  proof (cases "task e d entry")
    case None
    with Cons.prems show ?thesis by (auto simp add: ok_action_def)
  next
    case (Some p)
    show ?thesis
    proof (cases "client_rejects e (S3_putObject p)")
      case None
      obtain issued1 in_flight1 st1 started1 where
        rest: "start_tasks e ev d pid n (Suc key) entries st = (issued1, in_flight1, st1, started1)"
        by (cases "start_tasks e ev d pid n (Suc key) entries st")
      from Cons.prems Some None rest have eq: "issued = S3_putObject p # issued1"
        by simp
      show ?thesis
        using Cons.prems(3) Cons.IH [OF Cons.prems(1) rest] ok_task [OF Some]
        by (auto simp add: eq)
    next
      case (Some err)
      obtain sent st0 where cb: "task_callback e ev pid n key p (Inl err) st = (sent, st0)"
        by (cases "task_callback e ev pid n key p (Inl err) st")
      obtain issued1 in_flight1 st1 started1 where
        rest: "start_tasks e ev d pid n (Suc key) entries st0 = (issued1, in_flight1, st1, started1)"
        by (cases "start_tasks e ev d pid n (Suc key) entries st0")
      from Cons.prems \<open>task e d entry = Some p\<close> Some cb rest
      have eq: "issued = S3_putObject p # sent @ issued1"
        by simp
      show ?thesis
        using Cons.prems(3) Cons.IH [OF Cons.prems(1) rest]
          ok_task [OF \<open>task e d entry = Some p\<close>] ok_task_callback [OF Cons.prems(1) cb]
        by (auto simp add: eq)
    qed
  qed
qed

lemma ok_answer_tasks:
  "pid \<noteq> [] \<Longrightarrow> a \<in> set (answer_tasks e ev pid n in_flight st) \<Longrightarrow> ok_action e pid a"
proof (induction in_flight arbitrary: st)
  case Nil
  then show ?case by simp
next
  case (Cons kp in_flight)
  obtain key p where kp: "kp = (key, p)" by (cases kp)
  obtain sent st' where cb: "task_callback e ev pid n key p (s3_putObject e p) st = (sent, st')"
    by (cases "task_callback e ev pid n key p (s3_putObject e p) st")
  show ?case
    using Cons.prems Cons.IH [OF Cons.prems(1), of st'] ok_task_callback [OF Cons.prems(1) cb]
    by (auto simp add: kp cb ok_action_def)
qed

lemma ok_publish:
  assumes "pid \<noteq> []" and "a \<in> set (publish e ev d pid files)"
  shows "ok_action e pid a"
proof (cases "AdmZip_open e files tmpPackageZip")
  case None
  with assms(2) show ?thesis by (simp add: publish_def ok_action_def)
next
  case (Some packageEntries)
  let ?tasks = "filter (\<lambda>entry. \<not> isDirectory entry) packageEntries"
  show ?thesis
  proof (cases "?tasks = []")
    case True
    with Some assms show ?thesis by (auto simp add: publish_def dest: ok_parallel_callback)
  next
    case False
    obtain issued in_flight st started where
      st: "start_tasks e ev d pid (length ?tasks) 0 ?tasks
             \<lparr>results = [], completed = 0, called = False\<rparr> = (issued, in_flight, st, started)"
      by (cases "start_tasks e ev d pid (length ?tasks) 0 ?tasks
             \<lparr>results = [], completed = 0, called = False\<rparr>")
    from assms(2) Some False st
    have "a \<in> set issued \<or> a \<in> set (answer_tasks e ev pid (length ?tasks) in_flight st)"
      by (auto simp add: publish_def Let_def split: if_splits)
    then show ?thesis
      using ok_start_tasks [OF assms(1) st] ok_answer_tasks [OF assms(1)] by blast
  qed
qed

lemma ok_Uncaught: "ok_action e pid Uncaught"
  by (simp add: ok_action_def)

lemma ok_find_package:
  assumes "find_package e ev zs (found, files, []) = (found', files', sent')"
    and "a \<in> set sent'"
  shows "ok_action e pid a"
  using find_package_sends_failed [OF assms]
  by (auto simp add: ok_action_def constants_defs)

lemma ok_getObject_callback:
  assumes "pid \<noteq> []" and "a \<in> set (getObject_callback e ev sb sa d pid answer)"
  shows "ok_action e pid a"
proof (cases answer)
  case (Inl err)
  with assms(2) show ?thesis
    by (auto simp add: getObject_callback_def dest: ok_send_failed)
next
  case (Inr body)
  show ?thesis
  proof (cases "fs_writeFileSync e tmpSourceArtifact body")
    case (Some ex)
    with Inr assms(2) show ?thesis
      by (auto simp add: getObject_callback_def dest: ok_send_failed)
  next
    case None
    show ?thesis
    proof (cases "AdmZip_open e ((tmp_files e)(tmpSourceArtifact \<mapsto> body)) tmpSourceArtifact")
      case None
      with Inr \<open>fs_writeFileSync e tmpSourceArtifact body = None\<close> assms(2) show ?thesis
        by (simp add: getObject_callback_def ok_Uncaught)
    next
      case (Some zipEntries)
      obtain packageFound files sent where
        fp: "find_package e ev zipEntries
               (False, (tmp_files e)(tmpSourceArtifact \<mapsto> body), []) =
             (packageFound, files, sent)"
        by (cases "find_package e ev zipEntries
               (False, (tmp_files e)(tmpSourceArtifact \<mapsto> body), [])")
      from assms(2) Inr \<open>fs_writeFileSync e tmpSourceArtifact body = None\<close> Some fp
      have "a \<in> set sent
            \<or> a \<in> set (sendCloudFormationResponse e ev FAILED
                          ''Could not package.zip in artifact'' None)
            \<or> a \<in> set (publish e ev d pid files)"
        by (auto simp add: getObject_callback_def split: if_splits)
      then show ?thesis
        using ok_find_package [OF fp] ok_send_failed ok_publish [OF assms(1)] by blast
    qed
  qed
qed

lemma ok_uploadArtifacts:
  "a \<in> set (uploadArtifacts e ev ro)
     \<Longrightarrow> ok_action e (''Deployment::'' @ interpolate (Option.bind ro DestinationBucket)) a"
  using ok_getObject_callback
    [of "''Deployment::'' @ interpolate (Option.bind ro DestinationBucket)" a e ev]
  unfolding uploadArtifacts_def Let_def
  by (auto split: if_splits option.splits dest: ok_send_failed simp add: ok_action_def)

subsection \<open>The physical resource id\<close>

lemma success_id_handler:
  assumes "RequestType ev = CREATE \<or> RequestType ev = UPDATE"
    and "Options ev = Some ro" and "DestinationBucket ro = Some d"
    and "b \<in> set (responses (handler e ev))" and "Status b = SUCCESS"
  shows "resp_PhysicalResourceId b = ''Deployment::'' @ d"
proof -
  obtain u where put: "Https_PUT u b \<in> set (handler e ev)"
    using response_in_trace [OF assms(4)] by blast
  have not_delete: "RequestType ev \<noteq> DELETE"
    using assms(1) by (auto simp add: constants_defs)
  have "ok_action e (''Deployment::'' @ d) (Https_PUT u b)"
  proof (cases "LogicalResourceId ev = ''WebsiteDeployment''")
    case True
    with put assms(1) not_delete have "Https_PUT u b \<in> set (uploadArtifacts e ev (Options ev))"
      by (simp add: handler_def Let_def)
    from ok_uploadArtifacts [OF this] show ?thesis
      using assms(2,3) by (simp add: interpolate_def)
  next
    case False
    with put have "Https_PUT u b
        \<in> set (sendCloudFormationResponse e ev FAILED
                 (''Invalid LogicalResourceId: '' @ LogicalResourceId ev) None)"
      by (simp add: handler_def Let_def)
    then show ?thesis by (rule ok_send_failed)
  qed
  with assms(5) show ?thesis by (simp add: ok_action_def)
qed

text \<open>
  C9. On the Create/Update path the physical resource id of a SUCCESS response is
  \<^verbatim>\<open>Deployment::<destinationBucket>\<close>: it depends on the destination bucket only, so a
  Create and an Update (any two Create/Update requests, in any two worlds) with the same
  destination bucket signal the same physical resource id.
\<close>

theorem physical_id_from_destination_bucket:
  assumes "RequestType ev1 = CREATE \<or> RequestType ev1 = UPDATE"
    and "RequestType ev2 = CREATE \<or> RequestType ev2 = UPDATE"
    and "Options ev1 = Some ro1" and "DestinationBucket ro1 = Some d"
    and "Options ev2 = Some ro2" and "DestinationBucket ro2 = Some d"
    and "b1 \<in> set (responses (handler e1 ev1))" and "Status b1 = SUCCESS"
    and "b2 \<in> set (responses (handler e2 ev2))" and "Status b2 = SUCCESS"
  shows "resp_PhysicalResourceId b1 = ''Deployment::'' @ d
       \<and> resp_PhysicalResourceId b2 = resp_PhysicalResourceId b1"
  using success_id_handler [OF assms(1) assms(3) assms(4) assms(7) assms(8)]
    success_id_handler [OF assms(2) assms(5) assms(6) assms(9) assms(10)]
  by simp

theorem physical_id_from_destination_bucket_witness:
  "success_body \<in> set (responses (handler world (request CREATE)))
   \<and> success_body \<in> set (responses (handler world_invalidation_fails (request UPDATE)))
   \<and> Status success_body = SUCCESS
   \<and> resp_PhysicalResourceId success_body = ''Deployment::site''"
proof -
  have k1: "RequestType (request CREATE) = CREATE \<or> RequestType (request CREATE) = UPDATE"
    by (simp add: request_def)
  have k2: "RequestType (request UPDATE) = CREATE \<or> RequestType (request UPDATE) = UPDATE"
    by (simp add: request_def)
  have o1: "Options (request CREATE) =
              Some \<lparr>SourceBucket = Some ''src'', SourceArtifact = Some ''build.zip'',
                    DestinationBucket = Some ''site''\<rparr>"
    by (simp add: request_def)
  have o2: "Options (request UPDATE) =
              Some \<lparr>SourceBucket = Some ''src'', SourceArtifact = Some ''build.zip'',
                    DestinationBucket = Some ''site''\<rparr>"
    by (simp add: request_def)
  have d: "DestinationBucket
             \<lparr>SourceBucket = Some ''src'', SourceArtifact = Some ''build.zip'',
              DestinationBucket = Some ''site''\<rparr> = Some ''site''"
    by simp
  have b1: "success_body \<in> set (responses (handler world (request CREATE)))"
    by (simp add: run_defs world_defs success_body_def)
  have b2: "success_body
              \<in> set (responses (handler world_invalidation_fails (request UPDATE)))"
    by (simp add: run_defs world_defs world_invalidation_fails_def
        success_body_def)
  have s: "Status success_body = SUCCESS"
    by (simp add: success_body_def SUCCESS_def)
  show ?thesis
    using b1 b2 s physical_id_from_destination_bucket [OF k1 k2 o1 d o2 d b1 s b2 s]
    by simp
qed

subsection \<open>Publishing\<close>

lemma no_upload_send: "S3_putObject p \<notin> set (sendCloudFormationResponse e ev st d pid)"
  by (simp add: sendCloudFormationResponse_def Let_def)

lemma no_upload_cleanBucket: "S3_putObject p \<notin> set (cleanBucket e ev rid)"
  by (auto simp add: cleanBucket_def listObjects_callback_def deleteObject_callback_def
      Let_def no_upload_send split: sum.splits option.splits)

text \<open>
  C8, as the code has it. The content type attached to every upload is what
  \<^verbatim>\<open>mime.getType\<close> answers for the path of the extracted file,
  \<^verbatim>\<open>/tmp/dist/<entry name>\<close>; when the type cannot be resolved, the \<^verbatim>\<open>null\<close> that
  \<^verbatim>\<open>mime.getType\<close> answers is attached as it is: the code has no fallback.
\<close>

theorem content_type_from_file_name:
  assumes "p \<in> set (uploads (handler e ev))"
  shows "ContentType p = mime_getType e (''/tmp/dist/'' @ Key p)"
proof -
  have put: "S3_putObject p \<in> set (handler e ev)"
    using upload_in_trace [OF assms] .
  then have "S3_putObject p \<in> set (uploadArtifacts e ev (Options ev))"
    by (auto simp add: handler_def Let_def no_upload_send no_upload_cleanBucket
        constants_defs split: if_splits)
  from ok_uploadArtifacts [OF this] show ?thesis
    by (simp add: ok_action_def)
qed

theorem content_type_from_file_name_witness:
  "upload_a_txt \<in> set (uploads (handler world (request CREATE)))
   \<and> ContentType upload_a_txt = mime_getType world (''/tmp/dist/'' @ Key upload_a_txt)
   \<and> ContentType upload_a_txt = Some ''text/plain''"
proof -
  have h: "upload_a_txt \<in> set (uploads (handler world (request CREATE)))"
    by (simp add: run_defs world_defs upload_a_txt_def)
  show ?thesis
    using h content_type_from_file_name [OF h] by (simp add: upload_a_txt_def)
qed

text \<open>
  C8, as the claim states it, fails: the file \<^verbatim>\<open>LICENSE\<close>, whose type is not resolved,
  is uploaded with no content type, not with a generic binary type.
\<close>

theorem no_fallback_content_type_counterexample:
  "mime_getType world_with_license ''/tmp/dist/LICENSE'' = None
   \<and> map Key (uploads (handler world_with_license (request CREATE))) = [''a.txt'', ''LICENSE'']
   \<and> map ContentType (uploads (handler world_with_license (request CREATE)))
       = [Some ''text/plain'', None]"
  by (simp add: run_defs world_defs world_with_license_def)

lemma find_package_none:
  "filter (\<lambda>z. entryName z = ''package.zip'') zs = [] \<Longrightarrow> find_package e ev zs st = st"
proof (induction zs)
  case Nil
  then show ?case by simp
next
  case (Cons z zs)
  then show ?case by (cases st) (simp split: if_splits)
qed

lemma find_package_single:
  "filter (\<lambda>z. entryName z = ''package.zip'') zs = [package]
     \<Longrightarrow> extractEntryTo e package ''/tmp'' = None
     \<Longrightarrow> find_package e ev zs (found, files, sent) =
           (True, files(''/tmp/package.zip'' \<mapsto> getData package), sent)"
proof (induction zs)
  case Nil
  then show ?case by simp
next
  case (Cons z zs)
  show ?case
  proof (cases "entryName z = ''package.zip''")
    case True
    with Cons.prems have "z = package" and "filter (\<lambda>z. entryName z = ''package.zip'') zs = []"
      by simp_all
    with True Cons.prems show ?thesis
      by (simp add: find_package_none fun_eq_iff)
  next
    case False
    with Cons show ?thesis by simp
  qed
qed

lemma parallel_callback_success:
  assumes "\<And>params. client_rejects e (CloudFront_createInvalidation params) = None"
    and "\<And>params. cloudfront_createInvalidation e params = None"
  shows "uploads (parallel_callback e ev pid (Inr result)) = []
       \<and> responses (parallel_callback e ev pid (Inr result)) =
           responses (sendCloudFormationResponse e ev SUCCESS ''OK'' (Some pid))"
  using assms
  by (simp add: parallel_callback_def createInvalidation_callback_def Let_def
      sendCloudFormationResponse_def)

text \<open>
  C7. A Create or Update request for the supported logical resource with all three
  options, in a run where every step succeeds (no call is refused by the client, and
  every file operation and every request succeeds): the fetched artifact is an archive
  with one entry \<^verbatim>\<open>package.zip\<close>, whose files (the entries that are not directories)
  are \<^verbatim>\<open>a.txt\<close> and \<^verbatim>\<open>b/c.css\<close>, in either order; \<^verbatim>\<open>mime.getType\<close> resolves
  their paths to \<^verbatim>\<open>text/plain\<close> and \<^verbatim>\<open>text/css\<close>. Then exactly two objects are
  uploaded, to the destination bucket, with keys \<^verbatim>\<open>a.txt\<close> and \<^verbatim>\<open>b/c.css\<close> and
  content types \<^verbatim>\<open>text/plain\<close> and \<^verbatim>\<open>text/css\<close>, and the one response sent has
  status SUCCESS and the physical resource id \<^verbatim>\<open>Deployment::<destinationBucket>\<close>.
\<close>

theorem round_trip:
  assumes "LogicalResourceId ev = ''WebsiteDeployment''"
    and "RequestType ev = CREATE \<or> RequestType ev = UPDATE"
    and "Options ev =
           Some \<lparr>SourceBucket = Some sb, SourceArtifact = Some sa, DestinationBucket = Some db\<rparr>"
    and "sb \<noteq> []" and "sa \<noteq> []" and "db \<noteq> []"
    and "s3_getObject e sb sa = Inr artifact"
    and "fs_writeFileSync e tmpSourceArtifact artifact = None"
    and "AdmZip e artifact = Some zipEntries"
    and "filter (\<lambda>z. entryName z = ''package.zip'') zipEntries = [package]"
    and "extractEntryTo e package ''/tmp'' = None"
    and "AdmZip e (getData package) = Some packageEntries"
    and "filter (\<lambda>entry. \<not> isDirectory entry) packageEntries = [f1, f2]"
    and "entryName f1 = ''a.txt'' \<and> entryName f2 = ''b/c.css''
         \<or> entryName f1 = ''b/c.css'' \<and> entryName f2 = ''a.txt''"
    and "extractEntryTo e f1 deploymentDir = None"
    and "extractEntryTo e f2 deploymentDir = None"
    and "mime_getType e ''/tmp/dist/a.txt'' = Some ''text/plain''"
    and "mime_getType e ''/tmp/dist/b/c.css'' = Some ''text/css''"
    and "\<And>p. \<exists>k. s3_putObject e p = Inr k"
    and "\<And>params. cloudfront_createInvalidation e params = None"
    and "client_rejects e (S3_getObject sb sa) = None"
    and "\<And>p. client_rejects e (S3_putObject p) = None"
    and "\<And>params. client_rejects e (CloudFront_createInvalidation params) = None"
  shows "length (uploads (handler e ev)) = 2
       \<and> set (map (\<lambda>p. (Bucket p, Key p, ContentType p)) (uploads (handler e ev)))
           = {(db, ''a.txt'', Some ''text/plain''), (db, ''b/c.css'', Some ''text/css'')}
       \<and> map Status (responses (handler e ev)) = [SUCCESS]
       \<and> map resp_PhysicalResourceId (responses (handler e ev)) = [''Deployment::'' @ db]"
proof -
  define pid where "pid = ''Deployment::'' @ db"
  define p1 where
    "p1 = \<lparr>Bucket = db, Key = entryName f1, ContentLength = length (getData f1),
            Body = getData f1, ContentType = mime_getType e (''/tmp/dist/'' @ entryName f1)\<rparr>"
  define p2 where
    "p2 = \<lparr>Bucket = db, Key = entryName f2, ContentLength = length (getData f2),
            Body = getData f2, ContentType = mime_getType e (''/tmp/dist/'' @ entryName f2)\<rparr>"
  let ?files = "((tmp_files e)(tmpSourceArtifact \<mapsto> artifact))
                  (''/tmp/package.zip'' \<mapsto> getData package)"
  let ?st0 = "\<lparr>results = [], completed = 0, called = False\<rparr>"
  have not_delete: "RequestType ev \<noteq> DELETE"
    using assms(2) by (auto simp add: constants_defs)
  have present: "\<not> missing_required_options (Options ev)"
    using assms(3-6) by (simp add: missing_required_options_def truthy_def)
  have upload: "handler e ev =
      S3_getObject sb sa # Tick # getObject_callback e ev sb sa db pid (Inr artifact)"
    using assms(1-3) assms(7) assms(21) not_delete present
    by (simp add: handler_def uploadArtifacts_def interpolate_def Let_def pid_def)
  have found: "find_package e ev zipEntries
                 (False, (tmp_files e)(tmpSourceArtifact \<mapsto> artifact), []) =
               (True, ?files, [])"
    using assms(10,11) by (rule find_package_single)
  have callback: "getObject_callback e ev sb sa db pid (Inr artifact) =
      publish e ev db pid ?files"
    using assms(8,9) found
    by (simp add: getObject_callback_def AdmZip_open_def)
  have tasks: "start_tasks e ev db pid (Suc (Suc 0)) 0 [f1, f2] ?st0 =
                 ([S3_putObject p1, S3_putObject p2], [(0, p1), (Suc 0, p2)], ?st0, True)"
    using assms(15,16) assms(22)
    by (simp add: task_def deploymentDir_def Let_def p1_def p2_def)
  obtain k1 where k1: "s3_putObject e p1 = Inr k1"
    using assms(19) by blast
  obtain k2 where k2: "s3_putObject e p2 = Inr k2"
    using assms(19) by blast
  have answers: "answer_tasks e ev pid (Suc (Suc 0)) [(0, p1), (Suc 0, p2)] ?st0 =
                   Tick # Tick # parallel_callback e ev pid (Inr [k1, k2])"
    using k1 k2 by (simp add: task_callback_def set_result_def Let_def)
  have publish: "publish e ev db pid ?files =
      [S3_putObject p1, S3_putObject p2, Tick, Tick]
      @ parallel_callback e ev pid (Inr [k1, k2])"
    using assms(12,13)
    by (simp add: publish_def AdmZip_open_def tmpPackageZip_def Let_def tasks answers
        del: start_tasks.simps answer_tasks.simps)
  have trace: "handler e ev =
      S3_getObject sb sa # Tick # S3_putObject p1 # S3_putObject p2 # Tick # Tick
      # parallel_callback e ev pid (Inr [k1, k2])"
    using upload callback publish by simp
  note final = parallel_callback_success [OF assms(23) assms(20), of ev pid "[k1, k2]"]
  have ups: "uploads (handler e ev) = [p1, p2]"
    using final by (simp add: trace)
  have resps: "responses (handler e ev) =
                 responses (sendCloudFormationResponse e ev SUCCESS ''OK'' (Some pid))"
    using final by (simp add: trace)
  have "length (uploads (handler e ev)) = 2"
    by (simp add: ups)
  moreover have "set (map (\<lambda>p. (Bucket p, Key p, ContentType p)) (uploads (handler e ev)))
           = {(db, ''a.txt'', Some ''text/plain''), (db, ''b/c.css'', Some ''text/css'')}"
    using assms(14,17,18) by (auto simp add: ups p1_def p2_def)
  moreover have "map Status (responses (handler e ev)) = [SUCCESS]"
    by (simp add: resps responses_send)
  moreover have "map resp_PhysicalResourceId (responses (handler e ev)) = [''Deployment::'' @ db]"
    by (simp add: resps responses_send pid_def)
  ultimately show ?thesis by blast
qed

theorem round_trip_witness:
  "LogicalResourceId (request CREATE) = ''WebsiteDeployment''
   \<and> s3_getObject world ''src'' ''build.zip'' = Inr ''ARTIFACT''
   \<and> AdmZip world ''ARTIFACT'' = Some [package_entry]
   \<and> AdmZip world (getData package_entry) = Some [a_txt, b_dir, b_c_css]
   \<and> length (uploads (handler world (request CREATE))) = 2
   \<and> set (map (\<lambda>p. (Bucket p, Key p, ContentType p)) (uploads (handler world (request CREATE))))
       = {(''site'', ''a.txt'', Some ''text/plain''), (''site'', ''b/c.css'', Some ''text/css'')}
   \<and> map Status (responses (handler world (request CREATE))) = [SUCCESS]
   \<and> map resp_PhysicalResourceId (responses (handler world (request CREATE)))
       = [''Deployment::site'']"
proof -
  have h1: "LogicalResourceId (request CREATE) = ''WebsiteDeployment''"
    by (simp add: request_def)
  have h2: "RequestType (request CREATE) = CREATE \<or> RequestType (request CREATE) = UPDATE"
    by (simp add: request_def)
  have h3: "Options (request CREATE) =
              Some \<lparr>SourceBucket = Some ''src'', SourceArtifact = Some ''build.zip'',
                    DestinationBucket = Some ''site''\<rparr>"
    by (simp add: request_def)
  have h4: "''src'' \<noteq> []" and h5: "''build.zip'' \<noteq> []" and h6: "''site'' \<noteq> []"
    by simp_all
  have h7: "s3_getObject world ''src'' ''build.zip'' = Inr ''ARTIFACT''"
    by (simp add: world_def)
  have h8: "fs_writeFileSync world tmpSourceArtifact ''ARTIFACT'' = None"
    by (simp add: world_def)
  have h9: "AdmZip world ''ARTIFACT'' = Some [package_entry]"
    by (simp add: world_def)
  have h10: "filter (\<lambda>z. entryName z = ''package.zip'') [package_entry] = [package_entry]"
    by (simp add: package_entry_def)
  have h11: "extractEntryTo world package_entry ''/tmp'' = None"
    by (simp add: world_def)
  have h12: "AdmZip world (getData package_entry) = Some [a_txt, b_dir, b_c_css]"
    by (simp add: world_def package_entry_def)
  have h13: "filter (\<lambda>entry. \<not> isDirectory entry) [a_txt, b_dir, b_c_css] = [a_txt, b_c_css]"
    by (simp add: a_txt_def b_dir_def b_c_css_def)
  have h14: "entryName a_txt = ''a.txt'' \<and> entryName b_c_css = ''b/c.css''
             \<or> entryName a_txt = ''b/c.css'' \<and> entryName b_c_css = ''a.txt''"
    by (simp add: a_txt_def b_c_css_def)
  have h15: "extractEntryTo world a_txt deploymentDir = None"
    by (simp add: world_def)
  have h16: "extractEntryTo world b_c_css deploymentDir = None"
    by (simp add: world_def)
  have h17: "mime_getType world ''/tmp/dist/a.txt'' = Some ''text/plain''"
    by (simp add: world_def)
  have h18: "mime_getType world ''/tmp/dist/b/c.css'' = Some ''text/css''"
    by (simp add: world_def)
  have h19: "\<exists>k. s3_putObject world p = Inr k" for p
    by (simp add: world_def)
  have h20: "cloudfront_createInvalidation world params = None" for params
    by (simp add: world_def)
  have h21: "client_rejects world (S3_getObject ''src'' ''build.zip'') = None"
    by (simp add: world_def)
  have h22: "client_rejects world (S3_putObject p) = None" for p
    by (simp add: world_def)
  have h23: "client_rejects world (CloudFront_createInvalidation params) = None" for params
    by (simp add: world_def)
  note rt = round_trip [OF h1 h2 h3 h4 h5 h6 h7 h8 h9 h10 h11 h12 h13 h14 h15 h16 h17 h18 h19
      h20 h21 h22 h23]
  show ?thesis
    by (intro conjI) (rule h1 h7 h9 h12 rt [THEN conjunct1] rt [THEN conjunct2, THEN conjunct1]
        rt [THEN conjunct2, THEN conjunct2, THEN conjunct1]
        rt [THEN conjunct2, THEN conjunct2, THEN conjunct2, simplified])+
qed

end
